theory Spec2Isabelle
  imports Complex_Main
begin

section \<open>Python values\<close>

text \<open>
  The engines compute on Python ints and floats. Both are modelled by \<open>real\<close>: exact
  arithmetic, no rounding, no \<open>nan\<close> and no \<open>inf\<close>. Where the code leaves the reals
  (an exception, or a numpy \<open>nan\<close>), the model returns a \<open>failure\<close> in the left
  summand of its result.
\<close>

datatype failure =
    ZeroDivisionError
  | ValueError
  | IndexError
  | NanResult  \<comment> \<open>numpy returned \<open>nan\<close> (mean of an empty slice); not an exception\<close>

text \<open>
  A \<open>dict\<close> is an association list in insertion order. \<open>dict_set k v d\<close> is the
  assignment \<open>d[k] = v\<close>: an existing key keeps its place, a new key goes last.
  \<open>map_of d k\<close> is the lookup, \<open>map fst d\<close> the keys.
\<close>

type_synonym ('k, 'v) dict = "('k \<times> 'v) list"

fun dict_set :: "'k \<Rightarrow> 'v \<Rightarrow> ('k, 'v) dict \<Rightarrow> ('k, 'v) dict" where
  "dict_set k v [] = [(k, v)]"
| "dict_set k v ((k', v') # d) =
     (if k' = k then (k', v) # d else (k', v') # dict_set k v d)"

text \<open>\<open>d.update(e)\<close>: assign every item of \<open>e\<close>, in order.\<close>

definition dict_update :: "('k, 'v) dict \<Rightarrow> ('k, 'v) dict \<Rightarrow> ('k, 'v) dict" where
  "dict_update d e = fold (\<lambda>(k, v) acc. dict_set k v acc) e d"

text \<open>\<open>xs[:n]\<close> for an int \<open>n\<close>: a negative bound counts from the end.\<close>

definition py_slice_to :: "int \<Rightarrow> 'a list \<Rightarrow> 'a list" where
  "py_slice_to n xs =
     (if 0 \<le> n then take (nat n) xs else take (length xs - nat (- n)) xs)"

text \<open>\<open>int(x)\<close> on a float: truncation toward zero.\<close>

definition py_int :: "real \<Rightarrow> int" where
  "py_int x = (if 0 \<le> x then \<lfloor>x\<rfloor> else \<lceil>x\<rceil>)"

section \<open>numpy statistics\<close>

text \<open>
  \<open>np.mean\<close>, \<open>np.var\<close>, \<open>np.std\<close> (population variance, \<open>ddof = 0\<close>) and
  \<open>np.median\<close>. On an empty list numpy returns \<open>nan\<close>; every call below is guarded
  by the code against the empty list, so the value of these functions at \<open>[]\<close> is
  never used.
\<close>

definition np_mean :: "real list \<Rightarrow> real" where
  "np_mean xs = sum_list xs / real (length xs)"

definition np_var :: "real list \<Rightarrow> real" where
  "np_var xs = np_mean (map (\<lambda>x. \<bar>x - np_mean xs\<bar> ^ 2) xs)"

definition np_std :: "real list \<Rightarrow> real" where
  "np_std xs = sqrt (np_var xs)"

definition np_median :: "real list \<Rightarrow> real" where
  "np_median xs =
     (let s = sort xs; n = length s
      in if odd n then s ! (n div 2)
         else (s ! (n div 2 - 1) + s ! (n div 2)) / 2)"

section \<open>Baseline and anomaly engine (baseline_analyzer.py)\<close>

subsection \<open>compute_robust_baseline\<close>

record stats =
  median :: real
  mad :: real

text \<open>
  The grouping loop: \<open>if key not in feature_values: feature_values[key] = []\<close>, then
  \<open>feature_values[key].append(value)\<close>.
\<close>

definition append_value ::
  "string \<Rightarrow> real \<Rightarrow> (string, real list) dict \<Rightarrow> (string, real list) dict" where
  "append_value key val fv =
     (case map_of fv key of
        None \<Rightarrow> dict_set key [val] fv
      | Some vs \<Rightarrow> dict_set key (vs @ [val]) fv)"

definition collect_values ::
  "(string, real) dict list \<Rightarrow> (string, real list) dict" where
  "collect_values recent =
     fold (\<lambda>features fv. fold (\<lambda>(key, val) fv'. append_value key val fv') features fv)
       recent []"

text \<open>The body of the second loop, for one feature's list of values.\<close>

definition robust_stats :: "real list \<Rightarrow> stats" where
  "robust_stats vals =
     (if length vals < 3 then \<lparr>median = np_median vals, mad = 0\<rparr>
      else
        let med = np_median vals;
            m = np_median (map (\<lambda>v. \<bar>v - med\<bar>) vals);
            m' = (if m < 1 / 10 ^ 6
                  then (let m1 = np_std vals / (1253 / 1000)
                        in if m1 < 1 / 10 ^ 6 then 1 / 10 else m1)
                  else m)
        in \<lparr>median = med, mad = m'\<rparr>)"

definition compute_robust_baseline ::
  "(string, real) dict list \<Rightarrow> int \<Rightarrow> (string, stats) dict" where
  "compute_robust_baseline feature_history window =
     (if feature_history = [] then []
      else
        let recent = py_slice_to window feature_history;
            feature_values = collect_values recent
        in fold (\<lambda>(key, vals) baseline. dict_set key (robust_stats vals) baseline)
             feature_values [])"

subsection \<open>compute_z_scores\<close>

definition compute_z_scores ::
  "(string, real) dict \<Rightarrow> (string, stats) dict \<Rightarrow> (string, real) dict" where
  "compute_z_scores features baseline =
     fold (\<lambda>(key, val) zmap.
             case map_of baseline key of
               None \<Rightarrow> dict_set key 0 zmap
             | Some b \<Rightarrow>
                 dict_set key (if 0 < mad b then (val - median b) / mad b else 0) zmap)
       features []"

subsection \<open>compute_anomaly_score\<close>

text \<open>
  Modelled from the spec: \<open>trim_mean\<close> is imported from \<open>scipy.stats\<close>; its code is not
  under src/. The spec (4.2) says: sort the values, discard the lowest and highest
  \<open>trim\<close> fraction from each end, average the remainder. The definition follows the
  library routine that does this: \<open>lowercut = int(proportiontocut * n)\<close>,
  \<open>uppercut = n - lowercut\<close>, \<open>ValueError\<close> when \<open>lowercut > uppercut\<close>, then the
  mean of the slice \<open>[lowercut:uppercut]\<close> of the array partitioned at both cuts.
  The partition is modelled by a full sort: the slice between the two cut positions of
  a partitioned array is a permutation of the same slice of the sorted array, and the
  mean over the reals does not depend on the order. A negative \<open>lowercut\<close> puts the
  upper partition index out of bounds (\<open>ValueError\<close>); an empty slice has mean
  \<open>nan\<close>; an empty array gives \<open>nan\<close>.
\<close>

definition trim_mean :: "real list \<Rightarrow> real \<Rightarrow> failure + real" where
  "trim_mean a proportiontocut =
     (if a = [] then Inl NanResult
      else
        let nobs = int (length a);
            lowercut = py_int (proportiontocut * real_of_int nobs);
            uppercut = nobs - lowercut
        in if lowercut > uppercut then Inl ValueError
           else if lowercut < 0 then Inl ValueError
           else
             let atmp = sort a;
                 sl = take (nat uppercut - nat lowercut) (drop (nat lowercut) atmp)
             in if sl = [] then Inl NanResult else Inr (np_mean sl))"

definition compute_anomaly_score :: "(string, real) dict \<Rightarrow> real \<Rightarrow> failure + real" where
  "compute_anomaly_score zmap trim =
     (if zmap = [] then Inr 0
      else
        let abs_z = map (\<lambda>(k, z). \<bar>z\<bar>) zmap
        in if length abs_z = 0 then Inr 0 else trim_mean abs_z trim)"

text \<open>
  The spec's words for the trimmed mean, to compare with the code: sort, drop the
  \<open>k\<close> lowest and the \<open>k\<close> highest where \<open>k\<close> is the whole number of values in
  the \<open>trim\<close> fraction, average what is left.
\<close>

definition spec_trimmed_mean :: "real list \<Rightarrow> real \<Rightarrow> real" where
  "spec_trimmed_mean xs trim =
     (let k = nat \<lfloor>trim * real (length xs)\<rfloor>;
          kept = rev (drop k (rev (drop k (sort xs))))
      in sum_list kept / real (length kept))"

subsection \<open>generate_interpretation_text\<close>

definition descriptions :: "(string, string) dict" where
  "descriptions =
     [(''geom.mean_curvature'', ''curvature''),
      (''geom.total_length'', ''total ink length''),
      (''geom.pen_lift_rate'', ''pen lifts''),
      (''color.hue_variance'', ''color diversity''),
      (''color.palette_size'', ''number of colors''),
      (''comp.spatial_entropy'', ''spatial distribution''),
      (''geom.mean_velocity'', ''drawing speed''),
      (''geom.std_velocity'', ''speed variation''),
      (''comp.vertical_symmetry'', ''symmetry''),
      (''layer.eraser_ratio'', ''eraser usage'')]"

text \<open>\<open>sep.join(parts)\<close>\<close>

fun join :: "string \<Rightarrow> string list \<Rightarrow> string" where
  "join sep [] = []"
| "join sep [p] = p"
| "join sep (p # q # ps) = p @ sep @ join sep (q # ps)"

text \<open>The list \<open>parts\<close> after the loop over \<open>top_features[:3]\<close>.\<close>

definition interpretation_parts :: "(string \<times> real) list \<Rightarrow> string list" where
  "interpretation_parts top_features =
     fold (\<lambda>(feature, z) parts.
             let desc = (case map_of descriptions feature of
                           None \<Rightarrow> feature | Some d \<Rightarrow> d);
                 direction = (if 0 < z then ''higher'' else ''lower'')
             in parts @ [direction @ '' '' @ desc])
       (take 3 top_features) []"

definition generate_interpretation_text :: "(string \<times> real) list \<Rightarrow> string" where
  "generate_interpretation_text top_features =
     (if top_features = [] then ''No significant deviations detected.''
      else ''Top signals: '' @ join '', '' (interpretation_parts top_features))"

section \<open>Feature extraction engine (feature_extractor.py)\<close>

subsection \<open>Data model\<close>

text \<open>
  The drawing payload is parsed JSON. A point has the keys \<open>x\<close>, \<open>y\<close>, \<open>t\<close> (read
  with \<open>p["x"]\<close>; fields \<open>px\<close>, \<open>py\<close>, \<open>pt\<close>) and may have \<open>pressure\<close>. Every
  key of a stroke and of the drawing is read with \<open>.get\<close>, so each may be absent
  (\<open>None\<close>). The keys \<open>width\<close> and \<open>closed\<close> are never read and are left out.
\<close>

record point =
  px :: real
  py :: real
  pt :: real
  pressure :: "real option"

record stroke =
  points :: "point list option"
  color :: "string option"
  opacity :: "real option"
  tool :: "string option"
  layer :: "real option"

record drawing =
  strokes :: "stroke list option"
  canvas_w :: "real option"
  canvas_h :: "real option"

text \<open>
  \<open>stroke.get("points", [])\<close>, \<open>stroke.get("color", "#000000")\<close>,
  \<open>stroke.get("opacity", 1.0)\<close> and \<open>stroke.get("layer", 0)\<close>
\<close>

definition stroke_points :: "stroke \<Rightarrow> point list" where
  "stroke_points s = (case points s of None \<Rightarrow> [] | Some ps \<Rightarrow> ps)"

definition stroke_color :: "stroke \<Rightarrow> string" where
  "stroke_color s = (case color s of None \<Rightarrow> ''#000000'' | Some c \<Rightarrow> c)"

definition stroke_opacity :: "stroke \<Rightarrow> real" where
  "stroke_opacity s = (case opacity s of None \<Rightarrow> 1 | Some a \<Rightarrow> a)"

definition stroke_layer :: "stroke \<Rightarrow> real" where
  "stroke_layer s = (case layer s of None \<Rightarrow> 0 | Some l \<Rightarrow> l)"

subsection \<open>Python and numpy primitives\<close>

text \<open>
  Indexing one axis of length \<open>n\<close> of a numpy array: a negative index counts from the
  end, anything outside \<open>[-n, n)\<close> raises \<open>IndexError\<close>.
\<close>

definition np_index :: "nat \<Rightarrow> int \<Rightarrow> failure + nat" where
  "np_index n i =
     (if 0 \<le> i \<and> i < int n then Inr (nat i)
      else if - int n \<le> i \<and> i < 0 then Inr (nat (i + int n))
      else Inl IndexError)"

definition np_zeros :: "nat \<Rightarrow> nat \<Rightarrow> real list list" where
  "np_zeros rows cols = replicate rows (replicate cols 0)"

text \<open>
  The binning loops: \<open>for x, y in all_points: i = ...; j = ...; grid[j, i] += 1\<close>
  on an \<open>n\<close> by \<open>n\<close> grid; \<open>cell\<close> computes \<open>(i, j)\<close>.
\<close>

fun fill_grid ::
  "(real \<times> real \<Rightarrow> int \<times> int) \<Rightarrow> nat \<Rightarrow> (real \<times> real) list \<Rightarrow> real list list
     \<Rightarrow> failure + real list list" where
  "fill_grid cell n [] grid = Inr grid"
| "fill_grid cell n (p # ps) grid =
     (case np_index n (snd (cell p)) of
        Inl e \<Rightarrow> Inl e
      | Inr j \<Rightarrow>
          (case np_index n (fst (cell p)) of
             Inl e \<Rightarrow> Inl e
           | Inr i \<Rightarrow> fill_grid cell n ps (grid[j := (grid ! j)[i := grid ! j ! i + 1]])))"

text \<open>\<open>x % m\<close> on floats, for a positive \<open>m\<close>: the result has the sign of \<open>m\<close>.\<close>

definition py_mod :: "real \<Rightarrow> real \<Rightarrow> real" where
  "py_mod x m = x - m * real_of_int \<lfloor>x / m\<rfloor>"

text \<open>\<open>round(x)\<close>: to the nearest integer, a tie to the even one.\<close>

definition py_round :: "real \<Rightarrow> int" where
  "py_round x =
     (let f = \<lfloor>x\<rfloor>; d = x - real_of_int f
      in if d < 1 / 2 then f
         else if 1 / 2 < d then f + 1
         else if even f then f else f + 1)"

text \<open>
  \<open>int(s, 16)\<close> on a string: optional whitespace, an optional sign, an optional
  \<open>0x\<close> or \<open>0X\<close> (which may be followed by one underscore), hexadecimal digits with
  single underscores between them, optional whitespace; anything else raises
  \<open>ValueError\<close> (\<open>None\<close>). Characters are code points below 256; the whitespace of
  \<open>int\<close> there is tab, line feed, vertical tab, form feed, carriage return, space,
  and, in a string that is not ASCII, next line (0x85) and no-break space (0xA0).
\<close>

definition hex_digit :: "char \<Rightarrow> nat option" where
  "hex_digit c = map_of
     [(CHR ''0'', 0), (CHR ''1'', 1), (CHR ''2'', 2), (CHR ''3'', 3), (CHR ''4'', 4),
      (CHR ''5'', 5), (CHR ''6'', 6), (CHR ''7'', 7), (CHR ''8'', 8), (CHR ''9'', 9),
      (CHR ''a'', 10), (CHR ''b'', 11), (CHR ''c'', 12), (CHR ''d'', 13), (CHR ''e'', 14),
      (CHR ''f'', 15),
      (CHR ''A'', 10), (CHR ''B'', 11), (CHR ''C'', 12), (CHR ''D'', 13), (CHR ''E'', 14),
      (CHR ''F'', 15)] c"

definition is_space :: "char \<Rightarrow> bool" where
  "is_space c \<longleftrightarrow>
     c \<in> set [CHR 0x09, CHR 0x0A, CHR 0x0B, CHR 0x0C, CHR 0x0D, CHR 0x20, CHR 0x85, CHR 0xA0]"

text \<open>The digits after the first one: the value so far, and the rest of the string.\<close>

fun hex_body :: "nat \<Rightarrow> string \<Rightarrow> (nat \<times> string) option" where
  "hex_body acc [] = Some (acc, [])"
| "hex_body acc (c # cs) =
     (case hex_digit c of
        Some d \<Rightarrow> hex_body (16 * acc + d) cs
      | None \<Rightarrow>
          if c = CHR ''_'' then
            (case cs of
               [] \<Rightarrow> None
             | c' # cs' \<Rightarrow>
                 (case hex_digit c' of
                    None \<Rightarrow> None
                  | Some d \<Rightarrow> hex_body (16 * acc + d) cs'))
          else Some (acc, c # cs))"

definition hex_number :: "string \<Rightarrow> (nat \<times> string) option" where
  "hex_number s =
     (case s of
        [] \<Rightarrow> None
      | c # cs \<Rightarrow> (case hex_digit c of None \<Rightarrow> None | Some d \<Rightarrow> hex_body d cs))"

definition strip_0x :: "string \<Rightarrow> string" where
  "strip_0x s =
     (case s of
        c # x # r \<Rightarrow>
          if c = CHR ''0'' \<and> (x = CHR ''x'' \<or> x = CHR ''X'')
          then (case r of u # r' \<Rightarrow> if u = CHR ''_'' then r' else r | [] \<Rightarrow> r)
          else s
      | _ \<Rightarrow> s)"

definition py_int_base16 :: "string \<Rightarrow> int option" where
  "py_int_base16 s =
     (let s1 = dropWhile is_space s;
          negative = (case s1 of c # r \<Rightarrow> c = CHR ''-'' | [] \<Rightarrow> False);
          s2 = (case s1 of c # r \<Rightarrow> if c = CHR ''+'' \<or> c = CHR ''-'' then r else s1
                | [] \<Rightarrow> s1)
      in case hex_number (strip_0x s2) of
           None \<Rightarrow> None
         | Some (v, rest) \<Rightarrow>
             if dropWhile is_space rest = []
             then Some (if negative then - int v else int v)
             else None)"

text \<open>\<open>s[a:b]\<close> for \<open>0 \<le> a \<le> b\<close>\<close>

definition py_slice :: "nat \<Rightarrow> nat \<Rightarrow> 'a list \<Rightarrow> 'a list" where
  "py_slice a b s = take (b - a) (drop a s)"

subsection \<open>extract_composition_features\<close>

text \<open>
  With at least one point, the first division by \<open>canvas_w\<close> is \<open>cx / canvas_w\<close> and
  the first by \<open>canvas_h\<close> is \<open>cy / canvas_h\<close>; both come before every other
  division, and Python raises \<open>ZeroDivisionError\<close> on a zero divisor. The later
  divisors (\<open>canvas_w\<close>, \<open>canvas_h\<close>, \<open>canvas_w / 3\<close>, \<open>canvas_h / 3\<close>,
  \<open>grid.sum() + 1e-10\<close>, \<open>total + 1e-10\<close>) are then not zero.
\<close>

definition extract_composition_features ::
  "stroke list \<Rightarrow> real \<Rightarrow> real \<Rightarrow> failure + (string, real) dict" where
  "extract_composition_features strks canvas_w' canvas_h' =
     (let all_points = concat (map (\<lambda>s. map (\<lambda>p. (px p, py p)) (stroke_points s)) strks)
      in if all_points = [] then Inr []
         else if canvas_w' = 0 then Inl ZeroDivisionError
         else if canvas_h' = 0 then Inl ZeroDivisionError
         else
           let cx = sum_list (map fst all_points) / real (length all_points);
               cy = sum_list (map snd all_points) / real (length all_points)
           in case fill_grid
                     (\<lambda>(x, y). (min (py_int (x / canvas_w' * 10)) 9,
                                min (py_int (y / canvas_h' * 10)) 9))
                     10 all_points (np_zeros 10 10) of
                Inl e \<Rightarrow> Inl e
              | Inr grid \<Rightarrow>
                  let grid_norm =
                        map (map (\<lambda>c. c / (sum_list (concat grid) + 1 / 10 ^ 10))) grid;
                      entropy =
                        - sum_list (map (\<lambda>g. g * ln (g + 1 / 10 ^ 10)) (concat grid_norm));
                      thirds_w = canvas_w' / 3;
                      thirds_h = canvas_h' / 3
                  in case fill_grid
                            (\<lambda>(x, y). (min (py_int (x / thirds_w)) 2,
                                       min (py_int (y / thirds_h)) 2))
                            3 all_points (np_zeros 3 3) of
                       Inl e \<Rightarrow> Inl e
                     | Inr thirds_grid \<Rightarrow>
                         let left_points =
                               length (filter (\<lambda>(x, y). x < canvas_w' / 2) all_points);
                             right_points =
                               length (filter (\<lambda>(x, y). canvas_w' / 2 \<le> x) all_points);
                             total = left_points + right_points
                         in Inr
                              [(''comp.centroid_x'', cx / canvas_w'),
                               (''comp.centroid_y'', cy / canvas_h'),
                               (''comp.spatial_entropy'', entropy),
                               (''comp.thirds_occupied'',
                                  real (length (filter (\<lambda>c. c \<noteq> 0) (concat thirds_grid)))),
                               (''comp.vertical_symmetry'',
                                  1 - \<bar>real left_points - real right_points\<bar>
                                        / (real total + 1 / 10 ^ 10))])"

subsection \<open>extract_geometry_features\<close>

text \<open>The pairs \<open>(points[i-1], points[i])\<close> for \<open>i\<close> in \<open>range(1, len(points))\<close>.\<close>

fun segments :: "point list \<Rightarrow> (point \<times> point) list" where
  "segments (p # q # ps) = (p, q) # segments (q # ps)"
| "segments ps = []"

text \<open>
  The triples \<open>(points[i-1], points[i], points[i+1])\<close> for \<open>i\<close> in
  \<open>range(1, len(points) - 1)\<close>.
\<close>

fun corners :: "point list \<Rightarrow> (point \<times> point \<times> point) list" where
  "corners (p # q # r # ps) = (p, q, r) # corners (q # r # ps)"
| "corners ps = []"

definition seg_length :: "point \<times> point \<Rightarrow> real" where
  "seg_length s =
     (case s of (p, q) \<Rightarrow>
        let dx = px q - px p; dy = py q - py p in sqrt (dx * dx + dy * dy))"

definition turn_angle :: "point \<times> point \<times> point \<Rightarrow> real" where
  "turn_angle c =
     (case c of (p, q, r) \<Rightarrow>
        let v1x = px q - px p; v1y = py q - py p;
            v2x = px r - px q; v2y = py r - py q;
            len1 = sqrt (v1x * v1x + v1y * v1y) + 1 / 10 ^ 10;
            len2 = sqrt (v2x * v2x + v2y * v2y) + 1 / 10 ^ 10;
            dot = (v1x * v2x + v1y * v2y) / (len1 * len2);
            dot' = max (- 1) (min 1 dot)
        in arccos dot')"

definition seg_velocity :: "point \<times> point \<Rightarrow> real list" where
  "seg_velocity s =
     (case s of (p, q) \<Rightarrow>
        let dt = (pt q - pt p) / 1000
        in if 0 < dt then [seg_length (p, q) / dt] else [])"

definition point_pressures :: "point list \<Rightarrow> real list" where
  "point_pressures ps =
     concat (map (\<lambda>p. case pressure p of None \<Rightarrow> [] | Some v \<Rightarrow> [v]) ps)"

text \<open>
  The accumulators of the loop over the strokes. After the loop each feature key is
  assigned once to a fresh dict, so the result is the list of the assignments in
  their order; the same holds for the other partial vectors.
\<close>

record geom_state =
  total_length :: real
  stroke_lengths :: "real list"
  curvatures :: "real list"
  velocities :: "real list"
  pressures :: "real list"
  total_time :: real

definition geom_init :: geom_state where
  "geom_init =
     \<lparr>total_length = 0, stroke_lengths = [], curvatures = [], velocities = [],
      pressures = [], total_time = 0\<rparr>"

text \<open>
  One iteration. A stroke with fewer than two points takes the \<open>continue\<close>: nothing
  below it runs, the last block (\<open>if len(points) > 0: total_time = ...\<close>) included.
\<close>

definition geom_step :: "stroke \<Rightarrow> geom_state \<Rightarrow> geom_state" where
  "geom_step strk st =
     (let pts = stroke_points strk
      in if length pts < 2 then st
         else
           let len = sum_list (map seg_length (segments pts))
           in \<lparr>total_length = total_length st + len,
               stroke_lengths = stroke_lengths st @ [len],
               curvatures = curvatures st @ map turn_angle (corners pts),
               velocities = velocities st @ concat (map seg_velocity (segments pts)),
               pressures = pressures st @ point_pressures pts,
               total_time =
                 (if 0 < length pts then max (total_time st) (pt (last pts))
                  else total_time st)\<rparr>)"

definition extract_geometry_features :: "stroke list \<Rightarrow> (string, real) dict" where
  "extract_geometry_features strks =
     (let pen_lifts = length strks;
          st = fold geom_step strks geom_init
      in [(''geom.total_length'', total_length st),
          (''geom.mean_stroke_length'',
             if stroke_lengths st \<noteq> [] then np_mean (stroke_lengths st) else 0),
          (''geom.std_stroke_length'',
             if stroke_lengths st \<noteq> [] then np_std (stroke_lengths st) else 0),
          (''geom.mean_curvature'',
             if curvatures st \<noteq> [] then np_mean (curvatures st) else 0),
          (''geom.max_curvature'',
             if curvatures st \<noteq> [] then Max (set (curvatures st)) else 0),
          (''geom.high_curvature_pct'',
             if curvatures st \<noteq> []
             then real (length (filter (\<lambda>c. 1 < c) (curvatures st)))
                    / real (length (curvatures st))
             else 0),
          (''geom.mean_velocity'',
             if velocities st \<noteq> [] then np_mean (velocities st) else 0),
          (''geom.std_velocity'',
             if velocities st \<noteq> [] then np_std (velocities st) else 0),
          (''geom.mean_pressure'',
             if pressures st \<noteq> [] then np_mean (pressures st) else 1),
          (''geom.std_pressure'',
             if pressures st \<noteq> [] then np_std (pressures st) else 0),
          (''geom.pen_lift_rate'',
             if 0 < total_time st then real pen_lifts / (total_time st / 1000) else 0)])"

subsection \<open>extract_color_features\<close>

definition rgb_to_hsv :: "real \<Rightarrow> real \<Rightarrow> real \<Rightarrow> real \<times> real \<times> real" where
  "rgb_to_hsv r g b =
     (let max_c = max r (max g b);
          min_c = min r (min g b);
          delta = max_c - min_c;
          v = max_c;
          s = (if max_c = 0 then 0 else delta / max_c);
          h = (if delta = 0 then 0
               else if max_c = r then py_mod ((g - b) / delta) 6
               else if max_c = g then (b - r) / delta + 2
               else (r - g) / delta + 4)
      in (h / 6, s, v))"

text \<open>
  The loop over the strokes: the HSV triples of the colors that start with \<open>#\<close>, and
  every stroke's opacity. A color that does not start with \<open>#\<close> is passed over.
\<close>

fun color_loop ::
  "stroke list \<Rightarrow> (real \<times> real \<times> real) list \<Rightarrow> real list
     \<Rightarrow> failure + ((real \<times> real \<times> real) list \<times> real list)" where
  "color_loop [] colors opacities = Inr (colors, opacities)"
| "color_loop (strk # rest) colors opacities =
     (let col = stroke_color strk;
          opa = stroke_opacity strk
      in if take 1 col = ''#'' then
           (case py_int_base16 (py_slice 1 3 col) of
              None \<Rightarrow> Inl ValueError
            | Some r \<Rightarrow>
                (case py_int_base16 (py_slice 3 5 col) of
                   None \<Rightarrow> Inl ValueError
                 | Some g \<Rightarrow>
                     (case py_int_base16 (py_slice 5 7 col) of
                        None \<Rightarrow> Inl ValueError
                      | Some b \<Rightarrow>
                          color_loop rest
                            (colors @ [rgb_to_hsv (real_of_int r / 255)
                                         (real_of_int g / 255) (real_of_int b / 255)])
                            (opacities @ [opa]))))
         else color_loop rest colors (opacities @ [opa]))"

definition extract_color_features :: "stroke list \<Rightarrow> failure + (string, real) dict" where
  "extract_color_features strks =
     (case color_loop strks [] [] of
        Inl e \<Rightarrow> Inl e
      | Inr (colors, opacities) \<Rightarrow>
          let hues = map (\<lambda>c. fst c) colors;
              sats = map (\<lambda>c. fst (snd c)) colors;
              vals = map (\<lambda>c. snd (snd c)) colors;
              quantized_hues = map (\<lambda>h. py_round (h * 12)) hues;
              warm_count =
                length (filter (\<lambda>h. 0 \<le> h \<and> h < 17 / 100 \<or> 83 / 100 < h) hues)
          in Inr
               ((if colors \<noteq> [] then
                   [(''color.palette_size'', real (length (remdups quantized_hues))),
                    (''color.hue_variance'', np_var hues),
                    (''color.mean_saturation'', np_mean sats),
                    (''color.mean_value'', np_mean vals),
                    (''color.warm_proportion'', real warm_count / real (length hues))]
                 else
                   [(''color.palette_size'', 1),
                    (''color.hue_variance'', 0),
                    (''color.mean_saturation'', 0),
                    (''color.mean_value'', 0),
                    (''color.warm_proportion'', 0)])
                @ (if opacities \<noteq> [] then
                     [(''color.mean_opacity'', np_mean opacities),
                      (''color.std_opacity'', np_std opacities)]
                   else
                     [(''color.mean_opacity'', 1),
                      (''color.std_opacity'', 0)])))"

subsection \<open>extract_layering_features\<close>

definition extract_layering_features :: "stroke list \<Rightarrow> (string, real) dict" where
  "extract_layering_features strks =
     (let layers = map stroke_layer strks;
          eraser_count = length (filter (\<lambda>s. tool s = Some ''eraser'') strks)
      in [(''layer.mean'', if layers \<noteq> [] then np_mean layers else 0),
          (''layer.std'', if layers \<noteq> [] then np_std layers else 0),
          (''layer.eraser_ratio'',
             if strks \<noteq> [] then real eraser_count / real (length strks) else 0)])"

subsection \<open>extract_features\<close>

definition get_empty_features :: "(string, real) dict" where
  "get_empty_features =
     [(''comp.centroid_x'', 1 / 2),
      (''comp.centroid_y'', 1 / 2),
      (''comp.spatial_entropy'', 0),
      (''comp.thirds_occupied'', 0),
      (''comp.vertical_symmetry'', 1),
      (''geom.total_length'', 0),
      (''geom.mean_stroke_length'', 0),
      (''geom.std_stroke_length'', 0),
      (''geom.mean_curvature'', 0),
      (''geom.max_curvature'', 0),
      (''geom.high_curvature_pct'', 0),
      (''geom.mean_velocity'', 0),
      (''geom.std_velocity'', 0),
      (''geom.mean_pressure'', 1),
      (''geom.std_pressure'', 0),
      (''geom.pen_lift_rate'', 0),
      (''color.palette_size'', 1),
      (''color.hue_variance'', 0),
      (''color.mean_saturation'', 0),
      (''color.mean_value'', 0),
      (''color.warm_proportion'', 0),
      (''color.mean_opacity'', 1),
      (''color.std_opacity'', 0),
      (''layer.mean'', 0),
      (''layer.std'', 0),
      (''layer.eraser_ratio'', 0)]"

definition extract_features :: "drawing \<Rightarrow> failure + (string, real) dict" where
  "extract_features drawing_data =
     (let strks = (case strokes drawing_data of None \<Rightarrow> [] | Some ss \<Rightarrow> ss);
          cw = (case canvas_w drawing_data of None \<Rightarrow> 800 | Some w \<Rightarrow> w);
          ch = (case canvas_h drawing_data of None \<Rightarrow> 600 | Some h \<Rightarrow> h)
      in if strks = [] then Inr get_empty_features
         else
           case extract_composition_features strks cw ch of
             Inl e \<Rightarrow> Inl e
           | Inr composition \<Rightarrow>
               let features = dict_update (dict_update [] composition) (extract_geometry_features strks)
               in case extract_color_features strks of
                    Inl e \<Rightarrow> Inl e
                  | Inr col \<Rightarrow>
                      Inr (dict_update (dict_update features col)
                             (extract_layering_features strks)))"

text \<open>The value of one feature of a drawing, when the extraction succeeds.\<close>

definition feature :: "drawing \<Rightarrow> string \<Rightarrow> real option" where
  "feature drawing_data key =
     (case extract_features drawing_data of Inl e \<Rightarrow> None | Inr fv \<Rightarrow> map_of fv key)"

subsection \<open>compute_qc_flags\<close>

definition compute_qc_flags :: "(string, real) dict \<Rightarrow> stroke list \<Rightarrow> (string, bool) dict" where
  "compute_qc_flags features strks =
     (let has_pressure =
            list_ex (\<lambda>s. list_ex (\<lambda>p. case pressure p of None \<Rightarrow> False | Some v \<Rightarrow> True)
                             (stroke_points s)) strks
      in [(''too_short'',
             (case map_of features ''geom.total_length'' of None \<Rightarrow> 0 | Some v \<Rightarrow> v) < 10),
          (''missing_pressure'', \<not> has_pressure),
          (''too_few_strokes'', length strks < 3)])"

section \<open>Notions for the statements\<close>

subsection \<open>The colors the color loop refuses\<close>

text \<open>
  A color that starts with \<open>#\<close> and of which one of the three slices \<open>[1:3]\<close>,
  \<open>[3:5]\<close>, \<open>[5:7]\<close> is refused by \<open>int(_, 16)\<close>.
\<close>

definition unparsable_color :: "string \<Rightarrow> bool" where
  "unparsable_color col \<longleftrightarrow>
     take 1 col = ''#'' \<and>
     (py_int_base16 (py_slice 1 3 col) = None \<or>
      py_int_base16 (py_slice 3 5 col) = None \<or>
      py_int_base16 (py_slice 5 7 col) = None)"

text \<open>
  The claim's notion: a well-formed \<open>#RRGGBB\<close> color is a \<open>#\<close> followed by exactly
  six hexadecimal digits.
\<close>

definition well_formed_hex_color :: "string \<Rightarrow> bool" where
  "well_formed_hex_color col \<longleftrightarrow>
     length col = 7 \<and> take 1 col = ''#'' \<and>
     list_all (\<lambda>c. hex_digit c \<noteq> None) (drop 1 col)"

text \<open>
  A character that is no hexadecimal digit, no sign and no whitespace; and a color
  that starts with \<open>#\<close> and is too short to hold a blue slice (fewer than five
  characters after the \<open>#\<close>) or has such a character among the first six after the
  \<open>#\<close>.
\<close>

definition foreign_char :: "char \<Rightarrow> bool" where
  "foreign_char c \<longleftrightarrow>
     hex_digit c = None \<and> c \<noteq> CHR ''+'' \<and> c \<noteq> CHR ''-'' \<and> \<not> is_space c"

definition broken_hex_color :: "string \<Rightarrow> bool" where
  "broken_hex_color col \<longleftrightarrow>
     take 1 col = ''#'' \<and> (length col < 6 \<or> list_ex foreign_char (py_slice 1 7 col))"

text \<open>The hues the color loop computes, in stroke order.\<close>

definition stroke_hues :: "stroke list \<Rightarrow> real list" where
  "stroke_hues strks =
     (case color_loop strks [] [] of
        Inl e \<Rightarrow> []
      | Inr (colors, opacities) \<Rightarrow> map (\<lambda>c. fst c) colors)"

subsection \<open>The specification's words, for comparison with the code\<close>

text \<open>
  Pen-lift rate as the specification words it: the stroke count divided by the
  duration in seconds, the duration being the maximum timestamp over all points of all
  strokes; 0 when the duration is 0.
\<close>

definition claimed_pen_lift_rate :: "stroke list \<Rightarrow> real" where
  "claimed_pen_lift_rate strks =
     (let ts = concat (map (\<lambda>s. map pt (stroke_points s)) strks);
          duration = (if ts = [] then 0 else Max (set ts))
      in if duration = 0 then 0 else real (length strks) / (duration / 1000))"

text \<open>
  Mean pressure as the specification words it: over all points, of any stroke, that
  carry a pressure; 1.0 when there is none.
\<close>

definition claimed_mean_pressure :: "stroke list \<Rightarrow> real" where
  "claimed_mean_pressure strks =
     (let ps = concat (map (\<lambda>s. point_pressures (stroke_points s)) strks)
      in if ps = [] then 1 else np_mean ps)"

text \<open>
  Palette size as the specification words it: the number of distinct bins among the
  12 bins \<open>[k/12, (k+1)/12)\<close> of \<open>[0, 1)\<close> that hold a hue.
\<close>

definition claimed_palette_size :: "real list \<Rightarrow> nat" where
  "claimed_palette_size hues = length (remdups (map (\<lambda>h. \<lfloor>h * 12\<rfloor>) hues))"

section \<open>Example drawings\<close>

definition bare_stroke :: "point list \<Rightarrow> stroke" where
  "bare_stroke ps =
     \<lparr>points = Some ps, color = None, opacity = None, tool = None, layer = None\<rparr>"

definition colored_stroke :: "string \<Rightarrow> stroke" where
  "colored_stroke c =
     \<lparr>points = None, color = Some c, opacity = None, tool = None, layer = None\<rparr>"

definition drawing_of :: "stroke list \<Rightarrow> drawing" where
  "drawing_of strks = \<lparr>strokes = Some strks, canvas_w = None, canvas_h = None\<rparr>"

text \<open>A two-point stroke that ends at 1000 ms, then a single point at 5000 ms.\<close>

definition late_dot_strokes :: "stroke list" where
  "late_dot_strokes =
     [bare_stroke [\<lparr>px = 0, py = 0, pt = 0, pressure = None\<rparr>,
                   \<lparr>px = 0, py = 0, pt = 1000, pressure = None\<rparr>],
      bare_stroke [\<lparr>px = 0, py = 0, pt = 5000, pressure = None\<rparr>]]"

text \<open>One stroke of one point, which carries the pressure 0.3.\<close>

definition pressed_dot_strokes :: "stroke list" where
  "pressed_dot_strokes =
     [bare_stroke [\<lparr>px = 0, py = 0, pt = 0, pressure = Some (3 / 10)\<rparr>]]"

text \<open>Thirteen strokes around the color wheel, and two reds.\<close>

definition wheel_colors :: "string list" where
  "wheel_colors =
     [''#FF0000'', ''#FF8000'', ''#FFFF00'', ''#80FF00'', ''#00FF00'', ''#00FF80'',
      ''#00FFFF'', ''#0080FF'', ''#0000FF'', ''#8000FF'', ''#FF00FF'', ''#FF0080'',
      ''#FF0010'']"

definition two_reds :: "string list" where
  "two_reds = [''#FF0000'', ''#FF6000'']"

section \<open>Auxiliary notions\<close>

text \<open>The values observed for one key in a list of items, in order.\<close>

definition values_of :: "string \<Rightarrow> (string \<times> real) list \<Rightarrow> real list" where
  "values_of key items = map snd (filter (\<lambda>p. fst p = key) items)"

text \<open>
  The invariant of the grouping loop: the keys are distinct and each key holds exactly
  the values seen for it so far.
\<close>

definition grouped :: "(string, real list) dict \<Rightarrow> (string \<times> real) list \<Rightarrow> bool" where
  "grouped fv items \<longleftrightarrow>
     distinct (map fst fv) \<and>
     (\<forall>k. map_of fv k =
            (if values_of k items = [] then None else Some (values_of k items)))"

text \<open>The phrase of one ranked feature.\<close>

definition phrase :: "string \<times> real \<Rightarrow> string" where
  "phrase p =
     (if 0 < snd p then ''higher'' else ''lower'') @ '' '' @
     (case map_of descriptions (fst p) of None \<Rightarrow> fst p | Some d \<Rightarrow> d)"

section \<open>Dictionaries\<close>

lemma map_of_dict_set:
  "map_of (dict_set k v d) k' = (if k' = k then Some v else map_of d k')"
  by (induction d) auto

lemma keys_dict_set:
  "map fst (dict_set k v d) = (if k \<in> fst ` set d then map fst d else map fst d @ [k])"
  by (induction d) force+

lemma distinct_dict_set:
  "distinct (map fst d) \<Longrightarrow> distinct (map fst (dict_set k v d))"
  by (simp add: keys_dict_set)

lemma dict_set_fresh: "k \<notin> fst ` set d \<Longrightarrow> dict_set k v d = d @ [(k, v)]"
  by (induction d) auto

text \<open>Assigning a run of fresh, distinct keys appends them in order.\<close>

lemma fold_dict_set_fresh:
  "distinct (map fst xs) \<Longrightarrow> fst ` set acc \<inter> fst ` set xs = {} \<Longrightarrow>
   fold (\<lambda>(k, v) acc. dict_set k (g k v) acc) xs acc = acc @ map (\<lambda>(k, v). (k, g k v)) xs"
proof (induction xs arbitrary: acc)
  case Nil
  then show ?case by simp
next
  case (Cons x xs)
  obtain k v where x: "x = (k, v)" by (cases x)
  from Cons.prems have fresh: "k \<notin> fst ` set acc" by (auto simp: x)
  have "fst ` set (acc @ [(k, g k v)]) \<inter> fst ` set xs = {}"
    using Cons.prems by (auto simp: x)
  moreover have "distinct (map fst xs)" using Cons.prems by simp
  ultimately show ?case
    using Cons.IH [of "acc @ [(k, g k v)]"] by (simp add: x dict_set_fresh [OF fresh])
qed

section \<open>The robust baseline\<close>

lemma values_of_snoc:
  "values_of k (items @ [(key, val)]) =
     (if k = key then values_of k items @ [val] else values_of k items)"
  by (simp add: values_of_def)

lemma grouped_append_value:
  assumes "grouped fv items"
  shows "grouped (append_value key val fv) (items @ [(key, val)])"
proof -
  from assms have d: "distinct (map fst fv)"
    and m: "\<And>k. map_of fv k =
      (if values_of k items = [] then None else Some (values_of k items))"
    by (simp_all add: grouped_def)
  show ?thesis
  proof (cases "values_of key items = []")
    case True
    then have "map_of fv key = None" by (simp add: m)
    then have "append_value key val fv = dict_set key [val] fv"
      by (simp add: append_value_def)
    then show ?thesis
      using d True by (simp add: grouped_def map_of_dict_set distinct_dict_set values_of_snoc m)
  next
    case False
    then have "map_of fv key = Some (values_of key items)" by (simp add: m)
    then have "append_value key val fv = dict_set key (values_of key items @ [val]) fv"
      by (simp add: append_value_def)
    then show ?thesis
      using d False by (simp add: grouped_def map_of_dict_set distinct_dict_set values_of_snoc m)
  qed
qed

lemma grouped_fold:
  "grouped fv items0 \<Longrightarrow>
   grouped (fold (\<lambda>(key, val) fv'. append_value key val fv') items fv) (items0 @ items)"
proof (induction items arbitrary: fv items0)
  case Nil
  then show ?case by simp
next
  case (Cons x items)
  obtain k v where x: "x = (k, v)" by (cases x)
  from Cons.IH [OF grouped_append_value [OF Cons.prems, of k v]]
  show ?case by (simp add: x)
qed

lemma grouped_fold_fold:
  "grouped fv items0 \<Longrightarrow>
   grouped (fold (\<lambda>features fv. fold (\<lambda>(key, val) fv'. append_value key val fv') features fv)
      recent fv) (items0 @ concat recent)"
proof (induction recent arbitrary: fv items0)
  case Nil
  then show ?case by simp
next
  case (Cons f recent)
  from Cons.IH [OF grouped_fold [OF Cons.prems, of f]]
  show ?case by simp
qed

lemma grouped_collect_values: "grouped (collect_values recent) (concat recent)"
  using grouped_fold_fold [of "[]" "[]" recent]
  by (simp add: collect_values_def grouped_def values_of_def)

lemma robust_stats_few: "length vals < 3 \<Longrightarrow> mad (robust_stats vals) = 0"
  by (simp add: robust_stats_def)

lemma robust_stats_floor: "3 \<le> length vals \<Longrightarrow> 1 / 10 ^ 6 \<le> mad (robust_stats vals)"
  by (simp add: robust_stats_def Let_def)

lemma baseline_map:
  "feature_history \<noteq> [] \<Longrightarrow> compute_robust_baseline feature_history window =
     map (\<lambda>(key, vals). (key, robust_stats vals))
       (collect_values (py_slice_to window feature_history))"
  using fold_dict_set_fresh [of "collect_values (py_slice_to window feature_history)" "[]"
      "\<lambda>k vals. robust_stats vals"] grouped_collect_values [of "py_slice_to window feature_history"]
  by (simp add: compute_robust_baseline_def grouped_def)

lemma robust_stats_nonneg: "0 \<le> mad (robust_stats vals)"
  using robust_stats_few [of vals] robust_stats_floor [of vals]
  by (cases "length vals < 3") auto

text \<open>No baseline entry has a negative \<open>mad\<close>.\<close>

lemma baseline_mad_nonneg:
  assumes "(key, b) \<in> set (compute_robust_baseline feature_history window)"
  shows "0 \<le> mad b"
proof -
  from assms have ne: "feature_history \<noteq> []"
    by (auto simp: compute_robust_baseline_def)
  from assms show ?thesis
    by (auto simp: baseline_map [OF ne] robust_stats_nonneg)
qed

text \<open>
  C2, as the claim states it, fails: a feature seen once in the history gets a
  \<open>mad\<close> of exactly 0.
\<close>

theorem baseline_mad_zero_counterexample:
  "compute_robust_baseline [[(''x'', 1)]] 30 = [(''x'', \<lparr>median = 1, mad = 0\<rparr>)]"
  by (simp add: compute_robust_baseline_def py_slice_to_def collect_values_def append_value_def
      robust_stats_def np_median_def)

text \<open>
  C2, amended: in the baseline of any history, the entry of a feature with at least 3
  observed values in the window has a \<open>mad\<close> of at least 1e-6, so it is not zero; the
  entry of a feature with fewer than 3 observed values has a \<open>mad\<close> of exactly 0.
\<close>

theorem baseline_mad_floor:
  assumes "(key, b) \<in> set (compute_robust_baseline feature_history window)"
  shows "(3 \<le> length (values_of key (concat (py_slice_to window feature_history)))
            \<longrightarrow> 1 / 10 ^ 6 \<le> mad b \<and> mad b \<noteq> 0) \<and>
         (length (values_of key (concat (py_slice_to window feature_history))) < 3
            \<longrightarrow> mad b = 0)"
proof -
  let ?recent = "py_slice_to window feature_history"
  from assms have ne: "feature_history \<noteq> []"
    by (auto simp: compute_robust_baseline_def)
  from assms obtain vals where v: "(key, vals) \<in> set (collect_values ?recent)"
    and b: "b = robust_stats vals"
    by (auto simp: baseline_map [OF ne])
  have g: "grouped (collect_values ?recent) (concat ?recent)"
    by (rule grouped_collect_values)
  then have "distinct (map fst (collect_values ?recent))"
    by (simp add: grouped_def)
  then have "map_of (collect_values ?recent) key = Some vals"
    using v by (simp add: map_of_eq_Some_iff)
  with g have vals: "values_of key (concat ?recent) = vals"
    by (auto simp: grouped_def split: if_splits)
  have few: "mad b = 0" if "length vals < 3"
    using robust_stats_few [OF that] by (simp add: b)
  have enough: "1 / 10 ^ 6 \<le> mad b \<and> mad b \<noteq> 0" if "3 \<le> length vals"
  proof -
    from robust_stats_floor [OF that] have "1 / 10 ^ 6 \<le> mad b" by (simp add: b)
    moreover have "(0 :: real) < 1 / 10 ^ 6" by simp
    ultimately show ?thesis by linarith
  qed
  show ?thesis unfolding vals using few enough by blast
qed

theorem baseline_mad_floor_witness:
  "(''x'', \<lparr>median = 3, mad = 1\<rparr>) \<in> set (compute_robust_baseline
       [[(''x'', 1)], [(''x'', 2)], [(''x'', 3)], [(''x'', 4)], [(''x'', 5)]] 30)
   \<and> 3 \<le> length (values_of ''x'' (concat (py_slice_to 30
       [[(''x'', 1)], [(''x'', 2)], [(''x'', 3)], [(''x'', 4)], [(''x'', 5)]])))
   \<and> 1 / 10 ^ 6 \<le> mad \<lparr>median = 3, mad = 1\<rparr>
   \<and> (''y'', \<lparr>median = 7, mad = 0\<rparr>) \<in> set (compute_robust_baseline
       [[(''y'', 7)], [(''x'', 2)]] 30)
   \<and> length (values_of ''y'' (concat (py_slice_to 30 [[(''y'', 7)], [(''x'', 2)]]))) < 3
   \<and> mad \<lparr>median = 7, mad = 0 :: real\<rparr> = 0"
proof -
  have m1: "(''x'', \<lparr>median = 3, mad = 1\<rparr>) \<in> set (compute_robust_baseline
       [[(''x'', 1)], [(''x'', 2)], [(''x'', 3)], [(''x'', 4)], [(''x'', 5)]] 30)"
    by (simp add: compute_robust_baseline_def py_slice_to_def collect_values_def
        append_value_def robust_stats_def np_median_def Let_def)
  have m2: "(''y'', \<lparr>median = 7, mad = 0\<rparr>) \<in> set (compute_robust_baseline
       [[(''y'', 7)], [(''x'', 2)]] 30)"
    by (simp add: compute_robust_baseline_def py_slice_to_def collect_values_def
        append_value_def robust_stats_def np_median_def Let_def)
  have l1: "3 \<le> length (values_of ''x'' (concat (py_slice_to 30
       [[(''x'', 1)], [(''x'', 2)], [(''x'', 3)], [(''x'', 4)], [(''x'', 5)]])))"
    by (simp add: values_of_def py_slice_to_def)
  have l2: "length (values_of ''y'' (concat (py_slice_to 30 [[(''y'', 7)], [(''x'', 2)]]))) < 3"
    by (simp add: values_of_def py_slice_to_def)
  from baseline_mad_floor [OF m1] l1 baseline_mad_floor [OF m2] l2 m1 m2
  show ?thesis by blast
qed

section \<open>Z-scores\<close>

text \<open>
  The loop assigns each key of the current vector once, in order. The code's test is
  \<open>mad > 0\<close>.
\<close>

lemma z_scores_map:
  assumes "distinct (map fst features)"
  shows "compute_z_scores features baseline =
           map (\<lambda>(key, val). (key,
                  case map_of baseline key of
                    None \<Rightarrow> 0
                  | Some b \<Rightarrow> if 0 < mad b then (val - median b) / mad b else 0)) features"
proof -
  let ?g = "\<lambda>key val. case map_of baseline key of
              None \<Rightarrow> 0
            | Some b \<Rightarrow> if 0 < mad b then (val - median b) / mad b else 0"
  have "(\<lambda>(key, val) zmap.
             case map_of baseline key of
               None \<Rightarrow> dict_set key 0 zmap
             | Some b \<Rightarrow>
                 dict_set key (if 0 < mad b then (val - median b) / mad b else 0) zmap)
        = (\<lambda>(key, val) zmap. dict_set key (?g key val) zmap)"
    by (auto simp: fun_eq_iff split: option.splits)
  then show ?thesis
    using fold_dict_set_fresh [OF assms, of "[]" ?g] by (simp add: compute_z_scores_def)
qed

text \<open>
  A median absolute deviation is never negative, and on such a baseline \<open>mad > 0\<close>
  is the claim's "nonzero mad".
\<close>

lemma z_scores_nonneg_baseline:
  assumes "distinct (map fst features)" "\<forall>(k, b) \<in> set baseline. 0 \<le> mad b"
  shows "compute_z_scores features baseline =
           map (\<lambda>(key, val). (key,
                  case map_of baseline key of
                    None \<Rightarrow> 0
                  | Some b \<Rightarrow> if mad b \<noteq> 0 then (val - median b) / mad b else 0)) features"
proof -
  have "(case map_of baseline key of None \<Rightarrow> 0
         | Some b \<Rightarrow> if 0 < mad b then (val - median b) / mad b else 0)
      = (case map_of baseline key of None \<Rightarrow> 0
         | Some b \<Rightarrow> if mad b \<noteq> 0 then (val - median b) / mad b else 0)" for key val
  proof (cases "map_of baseline key")
    case None
    then show ?thesis by simp
  next
    case (Some b)
    then have "(key, b) \<in> set baseline" by (rule map_of_SomeD)
    with assms(2) have "0 \<le> mad b" by auto
    then show ?thesis using Some by auto
  qed
  then show ?thesis by (simp add: z_scores_map [OF assms(1)])
qed

text \<open>
  C5: for every current feature vector (a dict: its keys are distinct) and every
  baseline (its \<open>mad\<close> values are median absolute deviations: none is negative),
  \<open>compute_z_scores\<close> emits, for each key of the current vector and in the same
  order, \<open>(value - median) / mad\<close> when the key is in the baseline with a nonzero
  \<open>mad\<close>, and 0.0 otherwise. This holds in particular, with no condition on it, for
  every baseline that \<open>compute_robust_baseline\<close> returns. And
  \<open>z_scores({"x":10}, {"x":{"median":3,"mad":1}}) = {"x":7.0}\<close>; a key absent from
  the baseline gets 0.0.
\<close>

theorem z_scores_nonzero_mad:
  assumes "distinct (map fst features)" "\<forall>(k, b) \<in> set baseline. 0 \<le> mad b"
  shows "compute_z_scores features baseline =
           map (\<lambda>(key, val). (key,
                  case map_of baseline key of
                    None \<Rightarrow> 0
                  | Some b \<Rightarrow> if mad b \<noteq> 0 then (val - median b) / mad b else 0)) features
         \<and> compute_z_scores features (compute_robust_baseline feature_history window) =
           map (\<lambda>(key, val). (key,
                  case map_of (compute_robust_baseline feature_history window) key of
                    None \<Rightarrow> 0
                  | Some b \<Rightarrow> if mad b \<noteq> 0 then (val - median b) / mad b else 0)) features
         \<and> compute_z_scores [(''x'', 10)] [(''x'', \<lparr>median = 3, mad = 1\<rparr>)] = [(''x'', 7)]
         \<and> compute_z_scores [(key, val)] [] = [(key, 0)]"
proof -
  have "\<forall>(k, b) \<in> set (compute_robust_baseline feature_history window). 0 \<le> mad b"
    using baseline_mad_nonneg by auto
  from z_scores_nonneg_baseline [OF assms] z_scores_nonneg_baseline [OF assms(1) this]
  show ?thesis by (simp add: compute_z_scores_def)
qed

theorem z_scores_nonzero_mad_witness:
  "distinct (map fst [(''x'', 10 :: real), (''n'', 4), (''c'', 5)])
   \<and> (0 :: real) \<le> mad \<lparr>median = 3, mad = 2\<rparr>
   \<and> (0 :: real) \<le> mad \<lparr>median = 1, mad = 0\<rparr>
   \<and> compute_z_scores [(''x'', 10), (''n'', 4), (''c'', 5)]
        [(''x'', \<lparr>median = 3, mad = 2\<rparr>), (''c'', \<lparr>median = 1, mad = 0\<rparr>)]
      = [(''x'', 7 / 2), (''n'', 0), (''c'', 0)]"
  using z_scores_nonzero_mad [of "[(''x'', 10), (''n'', 4), (''c'', 5)]"
      "[(''x'', \<lparr>median = 3, mad = 2\<rparr>), (''c'', \<lparr>median = 1, mad = 0\<rparr>)]"]
  by simp

section \<open>The anomaly score\<close>

lemma rev_drop_rev: "rev (drop k (rev xs)) = take (length xs - k) xs"
  by (simp add: rev_drop)

lemma anomaly_trimmed:
  assumes "0 \<le> trim" "trim < 1 / 2" "zmap \<noteq> []"
  shows "compute_anomaly_score zmap trim =
     Inr (spec_trimmed_mean (map (\<lambda>(k, z). \<bar>z\<bar>) zmap) trim)"
proof -
  let ?a = "map (\<lambda>(k, z). \<bar>z\<bar>) zmap"
  let ?n = "length zmap"
  let ?k = "\<lfloor>trim * real ?n\<rfloor>"
  have n: "0 < ?n" using assms by simp
  have k0: "0 \<le> ?k" using assms by simp
  have "trim * real ?n < real ?n / 2" using assms n by simp
  then have "real_of_int ?k < real ?n / 2"
    by (meson floor_le_iff le_less_trans of_int_floor_le)
  then have k2: "2 * ?k < int ?n" by linarith
  have pi: "py_int (trim * real ?n) = ?k" using assms by (simp add: py_int_def)
  have len: "nat (int ?n - ?k) - nat ?k = ?n - nat ?k - nat ?k"
    using k0 k2 by linarith
  have ne: "take (?n - nat ?k - nat ?k) (drop (nat ?k) (sort ?a)) \<noteq> []"
    using k0 k2 n by (simp add: take_eq_Nil) linarith
  show ?thesis
    using assms(3) k0 k2 ne
    by (simp add: compute_anomaly_score_def trim_mean_def Let_def pi len spec_trimmed_mean_def
        rev_drop_rev np_mean_def)
qed

lemma sum_list_insort: "sum_list (insort x xs) = x + sum_list (xs :: real list)"
  by (induction xs) auto

lemma sum_list_sort: "sum_list (sort xs) = sum_list (xs :: real list)"
  by (induction xs) (auto simp: sum_list_insort)

lemma length_five:
  assumes "length xs = 5"
  shows "\<exists>a b c d e. xs = [a, b, c, d, e]"
proof -
  from assms have "length xs = Suc (Suc (Suc (Suc (Suc 0))))" by simp
  then show ?thesis by (simp add: length_Suc_conv) blast
qed

lemma anomaly_five:
  assumes "length zmap = 5"
  shows "compute_anomaly_score zmap (1 / 5) =
     Inr ((sum_list (map (\<lambda>(k, z). \<bar>z\<bar>) zmap)
           - Min (set (map (\<lambda>(k, z). \<bar>z\<bar>) zmap))
           - Max (set (map (\<lambda>(k, z). \<bar>z\<bar>) zmap))) / 3)"
proof -
  let ?a = "map (\<lambda>(k, z). \<bar>z\<bar>) zmap"
  have l: "length (sort ?a) = 5" using assms by simp
  then obtain s0 s1 s2 s3 s4 where s: "sort ?a = [s0, s1, s2, s3, s4]"
    using length_five by blast
  have "sorted (sort ?a)" by simp
  then have ord: "s0 \<le> s1" "s1 \<le> s2" "s2 \<le> s3" "s3 \<le> s4"
    by (simp_all add: s)
  have st: "set ?a = {s0, s1, s2, s3, s4}"
    using set_sort [of "\<lambda>x. x" ?a] by (simp add: s)
  have mn: "Min (set ?a) = s0" unfolding st using ord by (simp add: min_def)
  have mx: "Max (set ?a) = s4" unfolding st using ord by (simp add: max_def)
  have sm: "sum_list ?a = s0 + s1 + s2 + s3 + s4"
    using sum_list_sort [of ?a] by (simp add: s)
  have ne: "zmap \<noteq> []" using assms by auto
  have "compute_anomaly_score zmap (1 / 5) = Inr ((s1 + s2 + s3) / 3)"
    using ne assms
    by (simp add: compute_anomaly_score_def trim_mean_def Let_def py_int_def s np_mean_def)
  then show ?thesis unfolding mn mx sm by simp
qed

text \<open>
  C6: for every z-score map and every trim fraction in \<open>[0, 1/2)\<close> (the default 0.2
  is one), \<open>compute_anomaly_score\<close> returns the trimmed mean of the absolute
  z-scores as the specification words it; for a map of 5 entries and trim 0.2 that is
  the sum of the \<open>|z|\<close> less the lowest and the highest, over 3; for the empty map it
  is 0.0.
\<close>

theorem anomaly_score_trimmed_mean:
  assumes "0 \<le> trim" "trim < 1 / 2"
  shows "compute_anomaly_score zmap trim =
           Inr (if zmap = [] then 0
                else spec_trimmed_mean (map (\<lambda>(k, z). \<bar>z\<bar>) zmap) trim)
         \<and> (length zmap = 5 \<longrightarrow>
              compute_anomaly_score zmap (1 / 5) =
                Inr ((sum_list (map (\<lambda>(k, z). \<bar>z\<bar>) zmap)
                      - Min (set (map (\<lambda>(k, z). \<bar>z\<bar>) zmap))
                      - Max (set (map (\<lambda>(k, z). \<bar>z\<bar>) zmap))) / 3))
         \<and> compute_anomaly_score [] trim = Inr 0"
proof -
  have "compute_anomaly_score [] trim = Inr 0"
    by (simp add: compute_anomaly_score_def)
  then show ?thesis
    using anomaly_trimmed [OF assms, of zmap] anomaly_five [of zmap] by auto
qed

theorem anomaly_score_trimmed_mean_witness:
  "(0 :: real) \<le> 1 / 5 \<and> (1 :: real) / 5 < 1 / 2
   \<and> length [(''a'', 1 :: real), (''b'', - 2), (''c'', 3), (''d'', - 4), (''e'', 5)] = 5
   \<and> compute_anomaly_score [(''a'', 1), (''b'', - 2), (''c'', 3), (''d'', - 4), (''e'', 5)] (1 / 5)
       = Inr 3"
  using anomaly_score_trimmed_mean
    [of "1 / 5" "[(''a'', 1), (''b'', - 2), (''c'', 3), (''d'', - 4), (''e'', 5)]"]
  by (simp add: spec_trimmed_mean_def)

section \<open>The interpretation text\<close>

lemma fold_snoc_map: "fold (\<lambda>x acc. acc @ [f x]) xs acc = acc @ map f xs"
  by (induction xs arbitrary: acc) auto

lemma interpretation_parts_map:
  "interpretation_parts tf = map phrase (take 3 tf)"
proof -
  have "(\<lambda>(feature, z) parts.
             let desc = (case map_of descriptions feature of
                           None \<Rightarrow> feature | Some d \<Rightarrow> d);
                 direction = (if 0 < z then ''higher'' else ''lower'')
             in parts @ [direction @ '' '' @ desc]) = (\<lambda>x acc. acc @ [phrase x])"
    by (auto simp: fun_eq_iff phrase_def split: option.splits)
  then show ?thesis
    using fold_snoc_map [of phrase "take 3 tf" "[]"] by (simp add: interpretation_parts_def)
qed

text \<open>
  C10: the text is "No significant deviations detected." exactly when the ranked list
  is empty; for a non-empty list it begins "Top signals: " and joins one phrase for
  each of the first three entries; the phrase of an entry is "higher" followed by the
  description when \<open>z > 0\<close> and "lower" followed by the description otherwise, so an
  entry with \<open>z = 0\<close> reads "lower".
\<close>

theorem interpretation_text_cases:
  "(generate_interpretation_text tf = ''No significant deviations detected.'') = (tf = [])
   \<and> (tf \<noteq> [] \<longrightarrow>
         generate_interpretation_text tf = ''Top signals: '' @ join '', '' (interpretation_parts tf)
         \<and> take 13 (generate_interpretation_text tf) = ''Top signals: '')
   \<and> length (interpretation_parts tf) = min 3 (length tf)
   \<and> (\<forall>i < min 3 (length tf).
        interpretation_parts tf ! i =
          (if 0 < snd (tf ! i) then ''higher'' else ''lower'') @ '' '' @
          (case map_of descriptions (fst (tf ! i)) of None \<Rightarrow> fst (tf ! i) | Some d \<Rightarrow> d)
        \<and> (snd (tf ! i) = 0 \<longrightarrow> take 6 (interpretation_parts tf ! i) = ''lower ''))"
  by (auto simp: generate_interpretation_text_def interpretation_parts_map phrase_def)

theorem interpretation_text_cases_witness:
  "[(''geom.total_length'', 0 :: real), (''foo'', 2)] \<noteq> []
   \<and> generate_interpretation_text [(''geom.total_length'', 0), (''foo'', 2)]
       = ''Top signals: lower total ink length, higher foo''
   \<and> (0 :: nat) < min 3 (length [(''geom.total_length'', 0 :: real), (''foo'', 2)])
   \<and> snd ([(''geom.total_length'', 0 :: real), (''foo'', 2)] ! 0) = 0
   \<and> take 6 (interpretation_parts [(''geom.total_length'', 0), (''foo'', 2)] ! 0) = ''lower ''"
proof -
  have parts: "interpretation_parts [(''geom.total_length'', 0), (''foo'', 2)]
      = [''lower total ink length'', ''higher foo'']"
    by (simp add: interpretation_parts_def descriptions_def)
  from interpretation_text_cases [of "[(''geom.total_length'', 0), (''foo'', 2)]"]
  show ?thesis by (simp add: parts)
qed

section \<open>Feature extraction\<close>

lemmas extraction_defs =
  extract_features_def extract_composition_features_def extract_geometry_features_def
  extract_color_features_def extract_layering_features_def stroke_points_def stroke_color_def
  stroke_opacity_def stroke_layer_def dict_update_def geom_step_def geom_init_def
  py_int_base16_def hex_number_def hex_digit_def strip_0x_def is_space_def py_slice_def
  rgb_to_hsv_def py_round_def py_mod_def py_int_def np_mean_def np_var_def np_std_def
  np_zeros_def np_index_def point_pressures_def Let_def
  bare_stroke_def colored_stroke_def drawing_of_def

subsection \<open>The keys of the feature vector\<close>

lemma dict_update_fresh:
  assumes "distinct (map fst e)" "set (map fst d) \<inter> set (map fst e) = {}"
  shows "dict_update d e = d @ e"
proof -
  have "map (\<lambda>(k, v). (k, v)) e = e" by (induction e) auto
  then show ?thesis
    using fold_dict_set_fresh [of e d "\<lambda>k v. v"] assms by (simp add: dict_update_def)
qed

lemma composition_keys:
  assumes "extract_composition_features strks w h = Inr fv"
  shows "map fst fv =
     (if \<exists>s\<in>set strks. stroke_points s \<noteq> []
      then [''comp.centroid_x'', ''comp.centroid_y'', ''comp.spatial_entropy'',
            ''comp.thirds_occupied'', ''comp.vertical_symmetry'']
      else [])"
proof -
  have "(concat (map (\<lambda>s. map (\<lambda>p. (px p, py p)) (stroke_points s)) strks) = []) =
        (\<not> (\<exists>s\<in>set strks. stroke_points s \<noteq> []))"
    by auto
  then show ?thesis
    using assms
    by (auto simp: extract_composition_features_def Let_def split: if_splits sum.splits)
qed

lemma geometry_keys:
  "map fst (extract_geometry_features strks) =
     [''geom.total_length'', ''geom.mean_stroke_length'', ''geom.std_stroke_length'',
      ''geom.mean_curvature'', ''geom.max_curvature'', ''geom.high_curvature_pct'',
      ''geom.mean_velocity'', ''geom.std_velocity'', ''geom.mean_pressure'',
      ''geom.std_pressure'', ''geom.pen_lift_rate'']"
  by (simp add: extract_geometry_features_def Let_def)

lemma color_keys:
  assumes "extract_color_features strks = Inr fv"
  shows "map fst fv =
     [''color.palette_size'', ''color.hue_variance'', ''color.mean_saturation'',
      ''color.mean_value'', ''color.warm_proportion'', ''color.mean_opacity'',
      ''color.std_opacity'']"
  using assms
  by (auto simp: extract_color_features_def Let_def split: sum.splits prod.splits if_splits)

lemma layering_keys:
  "map fst (extract_layering_features strks) =
     [''layer.mean'', ''layer.std'', ''layer.eraser_ratio'']"
  by (simp add: extract_layering_features_def Let_def)

text \<open>
  What the code does emit: when the extraction of a drawing with at least one stroke
  succeeds, the result is the four partial vectors one after the other, and its keys
  are the 26 of the default vector if some stroke has a point, and those 26 less the
  five \<open>comp.*\<close> keys if no stroke has a point.
\<close>

lemma extract_features_parts:
  assumes "strokes d = Some strks" "strks \<noteq> []" "extract_features d = Inr fv"
  shows "\<exists>cf col.
     extract_composition_features strks
        (case canvas_w d of None \<Rightarrow> 800 | Some w \<Rightarrow> w)
        (case canvas_h d of None \<Rightarrow> 600 | Some h \<Rightarrow> h) = Inr cf
     \<and> extract_color_features strks = Inr col
     \<and> fv = cf @ extract_geometry_features strks @ col @ extract_layering_features strks"
proof -
  let ?w = "case canvas_w d of None \<Rightarrow> 800 | Some w \<Rightarrow> w"
  let ?h = "case canvas_h d of None \<Rightarrow> 600 | Some h \<Rightarrow> h"
  from assms obtain cf col where
    cf: "extract_composition_features strks ?w ?h = Inr cf"
    and col: "extract_color_features strks = Inr col"
    and fv: "fv = dict_update (dict_update (dict_update (dict_update [] cf)
                (extract_geometry_features strks)) col) (extract_layering_features strks)"
    by (auto simp: extract_features_def Let_def split: sum.splits)
  note k = composition_keys [OF cf] geometry_keys [of strks] color_keys [OF col]
    layering_keys [of strks]
  have 1: "dict_update [] cf = cf"
    by (rule dict_update_fresh [of cf "[]", simplified]) (simp add: k)
  have 2: "dict_update cf (extract_geometry_features strks) = cf @ extract_geometry_features strks"
    by (rule dict_update_fresh) (simp_all add: k)
  have 3: "dict_update (cf @ extract_geometry_features strks) col
      = cf @ extract_geometry_features strks @ col"
    using dict_update_fresh [of col "cf @ extract_geometry_features strks"] by (simp add: k)
  have 4: "dict_update (cf @ extract_geometry_features strks @ col) (extract_layering_features strks)
      = cf @ extract_geometry_features strks @ col @ extract_layering_features strks"
    using dict_update_fresh [of "extract_layering_features strks"
        "cf @ extract_geometry_features strks @ col"] by (simp add: k)
  show ?thesis using cf col by (simp add: fv 1 2 3 4)
qed

lemma extract_features_keys:
  assumes "strokes d = Some strks" "strks \<noteq> []" "extract_features d = Inr fv"
  shows "map fst fv =
     (if \<exists>s\<in>set strks. stroke_points s \<noteq> [] then map fst get_empty_features
      else drop 5 (map fst get_empty_features))"
proof -
  from extract_features_parts [OF assms] obtain cf col where
    cf: "extract_composition_features strks
        (case canvas_w d of None \<Rightarrow> 800 | Some w \<Rightarrow> w)
        (case canvas_h d of None \<Rightarrow> 600 | Some h \<Rightarrow> h) = Inr cf"
    and col: "extract_color_features strks = Inr col"
    and fv: "fv = cf @ extract_geometry_features strks @ col @ extract_layering_features strks"
    by blast
  show ?thesis
    by (simp add: fv composition_keys [OF cf] geometry_keys color_keys [OF col] layering_keys
        get_empty_features_def)
qed

text \<open>
  The binning clamps an index from above only. A point left of \<open>- canvas_w\<close> gets a
  column index below \<open>-10\<close>, and the extraction raises \<open>IndexError\<close>.
\<close>

lemma off_canvas_point_raises:
  "extract_features
     (drawing_of [bare_stroke [\<lparr>px = - 1000, py = 0, pt = 0, pressure = None\<rparr>]])
   = Inl IndexError"
  by (simp add: extraction_defs)

text \<open>
  C1 (the code departs from the claim): a drawing of one stroke with an empty points
  list is extracted without the five \<open>comp.*\<close> keys: the composition step returns
  an empty dict when there is no point, where the other three steps and the default
  vector write defaults. The result has 21 keys.
\<close>

theorem extract_features_no_points_drops_comp_keys:
  "extract_features (drawing_of [bare_stroke []]) =
     Inr [(''geom.total_length'', 0),
          (''geom.mean_stroke_length'', 0),
          (''geom.std_stroke_length'', 0),
          (''geom.mean_curvature'', 0),
          (''geom.max_curvature'', 0),
          (''geom.high_curvature_pct'', 0),
          (''geom.mean_velocity'', 0),
          (''geom.std_velocity'', 0),
          (''geom.mean_pressure'', 1),
          (''geom.std_pressure'', 0),
          (''geom.pen_lift_rate'', 0),
          (''color.palette_size'', 1),
          (''color.hue_variance'', 0),
          (''color.mean_saturation'', 0),
          (''color.mean_value'', 0),
          (''color.warm_proportion'', 1),
          (''color.mean_opacity'', 1),
          (''color.std_opacity'', 0),
          (''layer.mean'', 0),
          (''layer.std'', 0),
          (''layer.eraser_ratio'', 0)]
   \<and> feature (drawing_of [bare_stroke []]) ''comp.centroid_x'' = None
   \<and> map_of get_empty_features ''comp.centroid_x'' = Some (1 / 2)"
  by (simp add: feature_def get_empty_features_def extraction_defs)

text \<open>
  C3: a drawing whose strokes are absent or empty is extracted to the default vector:
  0.5 for both centroids, 1.0 for vertical symmetry, mean pressure and mean opacity,
  1 for the palette size, 0 for every other key.
\<close>

theorem extract_features_no_strokes:
  assumes "strokes d = None \<or> strokes d = Some []"
  shows "extract_features d =
     Inr [(''comp.centroid_x'', 1 / 2),
          (''comp.centroid_y'', 1 / 2),
          (''comp.spatial_entropy'', 0),
          (''comp.thirds_occupied'', 0),
          (''comp.vertical_symmetry'', 1),
          (''geom.total_length'', 0),
          (''geom.mean_stroke_length'', 0),
          (''geom.std_stroke_length'', 0),
          (''geom.mean_curvature'', 0),
          (''geom.max_curvature'', 0),
          (''geom.high_curvature_pct'', 0),
          (''geom.mean_velocity'', 0),
          (''geom.std_velocity'', 0),
          (''geom.mean_pressure'', 1),
          (''geom.std_pressure'', 0),
          (''geom.pen_lift_rate'', 0),
          (''color.palette_size'', 1),
          (''color.hue_variance'', 0),
          (''color.mean_saturation'', 0),
          (''color.mean_value'', 0),
          (''color.warm_proportion'', 0),
          (''color.mean_opacity'', 1),
          (''color.std_opacity'', 0),
          (''layer.mean'', 0),
          (''layer.std'', 0),
          (''layer.eraser_ratio'', 0)]"
  using assms by (auto simp: extract_features_def get_empty_features_def)

theorem extract_features_no_strokes_witness:
  "strokes \<lparr>strokes = None, canvas_w = Some 0, canvas_h = None\<rparr> = None
   \<and> map fst (projr (extract_features \<lparr>strokes = None, canvas_w = Some 0, canvas_h = None\<rparr>))
       = map fst get_empty_features
   \<and> strokes (drawing_of []) = Some []
   \<and> feature (drawing_of []) ''comp.centroid_x'' = Some (1 / 2)
   \<and> feature (drawing_of []) ''color.palette_size'' = Some 1
   \<and> feature (drawing_of []) ''layer.std'' = Some 0"
  using extract_features_no_strokes [of "\<lparr>strokes = None, canvas_w = Some 0, canvas_h = None\<rparr>"]
    extract_features_no_strokes [of "drawing_of []"]
  by (simp add: feature_def drawing_of_def get_empty_features_def)

subsection \<open>Malformed colors\<close>


















text \<open>Such a color is not well-formed, and a well-formed color is parsed.\<close>

lemma broken_not_well_formed: "broken_hex_color col \<Longrightarrow> \<not> well_formed_hex_color col"
proof
  assume b: "broken_hex_color col" and w: "well_formed_hex_color col"
  from w have l: "length col = 7" and h: "list_all (\<lambda>c. hex_digit c \<noteq> None) (drop 1 col)"
    by (simp_all add: well_formed_hex_color_def)
  from l have "py_slice 1 7 col = drop 1 col" by (simp add: py_slice_def)
  with b l have "list_ex foreign_char (drop 1 col)" by (simp add: broken_hex_color_def)
  with h show False by (auto simp: list_ex_iff list_all_iff foreign_char_def)
qed






text \<open>
  Between the two lie the colors that start with \<open>#\<close>, are not well-formed, and are
  parsed all the same, because each slice is handed to \<open>int(_, 16)\<close> with no check
  of its length or characters: a last slice of one digit, characters after the
  seventh, a sign or a blank in a slice. The statement of C4 below says nothing about
  them.
\<close>

lemma lenient_colors_parsed:
  "\<not> well_formed_hex_color ''#12345'' \<and> \<not> unparsable_color ''#12345''"
  "\<not> well_formed_hex_color ''#FF0000AA'' \<and> \<not> unparsable_color ''#FF0000AA''"
  "\<not> well_formed_hex_color ''#+f-f f'' \<and> \<not> unparsable_color ''#+f-f f''"
  by (simp_all add: well_formed_hex_color_def unparsable_color_def py_slice_def
      py_int_base16_def hex_number_def hex_digit_def strip_0x_def is_space_def)




subsection \<open>What the geometry loop collects\<close>

text \<open>
  The loop reads pressures and end times only from the strokes of at least two points:
  the other strokes leave every accumulator as it is.
\<close>

lemma geom_fold_pressures:
  "pressures (fold geom_step strks st) =
     pressures st @
     concat (map (\<lambda>s. point_pressures (stroke_points s))
               (filter (\<lambda>s. 2 \<le> length (stroke_points s)) strks))"
  by (induction strks arbitrary: st) (simp_all add: geom_step_def Let_def)

lemma geom_fold_total_time:
  "total_time (fold geom_step strks st) =
     fold (\<lambda>s acc. max acc (pt (last (stroke_points s))))
       (filter (\<lambda>s. 2 \<le> length (stroke_points s)) strks) (total_time st)"
  by (induction strks arbitrary: st) (simp_all add: geom_step_def Let_def)

text \<open>
  So the mean pressure is the one the specification words whenever every stroke has at
  least two points.
\<close>

lemma mean_pressure_long_strokes:
  assumes "\<forall>s\<in>set strks. 2 \<le> length (stroke_points s)"
  shows "map_of (extract_geometry_features strks) ''geom.mean_pressure''
           = Some (claimed_mean_pressure strks)"
proof -
  from assms have "filter (\<lambda>s. 2 \<le> length (stroke_points s)) strks = strks"
    by (simp add: filter_id_conv)
  then have "pressures (fold geom_step strks geom_init) =
      concat (map (\<lambda>s. point_pressures (stroke_points s)) strks)"
    by (simp add: geom_fold_pressures geom_init_def)
  then show ?thesis
    by (simp add: extract_geometry_features_def claimed_mean_pressure_def Let_def)
qed

subsection \<open>Pen-lift rate, pressure and palette size\<close>

text \<open>
  C7 (the code departs from the claim): a two-point stroke ending at 1000 ms and a
  later single point at 5000 ms. The maximum timestamp is 5000 ms, so the claimed
  rate is 2 / 5 s = 0.4; the code skips the single-point stroke before it reads its
  timestamp, takes 1000 ms for the duration and returns 2.
\<close>

theorem pen_lift_rate_ignores_short_strokes:
  "feature (drawing_of late_dot_strokes) ''geom.pen_lift_rate'' = Some 2
   \<and> claimed_pen_lift_rate late_dot_strokes = 2 / 5"
  by (simp add: feature_def late_dot_strokes_def claimed_pen_lift_rate_def extraction_defs)

text \<open>
  C8 (the code departs from the claim): one stroke of one point with pressure 0.3.
  The mean over the points that carry a pressure is 0.3; the code skips the stroke
  before it reads the pressure and returns the default 1.0 of a drawing without
  pressure data, while \<open>compute_qc_flags\<close>, which reads every stroke, reports that
  pressure is not missing.
\<close>

theorem mean_pressure_ignores_short_strokes:
  "feature (drawing_of pressed_dot_strokes) ''geom.mean_pressure'' = Some 1
   \<and> claimed_mean_pressure pressed_dot_strokes = 3 / 10
   \<and> map_of (compute_qc_flags [] pressed_dot_strokes) ''missing_pressure'' = Some False"
  by (simp add: feature_def pressed_dot_strokes_def claimed_mean_pressure_def
      compute_qc_flags_def extraction_defs)

text \<open>
  C9 (the code departs from the claim): \<open>round(h * 12)\<close> takes the 13 values 0 to 12,
  so thirteen strokes around the color wheel give a palette size of 13; and the two
  reds \<open>#FF0000\<close> and \<open>#FF6000\<close>, whose hues 0 and 16/255 both lie in the bin
  \<open>[0, 1/12)\<close>, are rounded to 0 and 1 and counted as two.
\<close>

theorem palette_size_thirteen_bins:
  "feature (drawing_of (map colored_stroke wheel_colors)) ''color.palette_size'' = Some 13
   \<and> feature (drawing_of (map colored_stroke two_reds)) ''color.palette_size'' = Some 2
   \<and> stroke_hues (map colored_stroke two_reds) = [0, 16 / 255]
   \<and> claimed_palette_size (stroke_hues (map colored_stroke two_reds)) = 1"
proof -
  have h: "stroke_hues (map colored_stroke two_reds) = [0, 16 / 255]"
    by (simp add: stroke_hues_def two_reds_def extraction_defs)
  have "feature (drawing_of (map colored_stroke wheel_colors)) ''color.palette_size'' = Some 13"
    by (simp add: feature_def wheel_colors_def extraction_defs)
  moreover have
    "feature (drawing_of (map colored_stroke two_reds)) ''color.palette_size'' = Some 2"
    by (simp add: feature_def two_reds_def extraction_defs)
  moreover have "claimed_palette_size [0, 16 / 255] = 1"
    by (simp add: claimed_palette_size_def)
  ultimately show ?thesis by (simp add: h)
qed

end
